theory Spec2Isabelle
  imports Main "HOL-Library.Word"
begin

unbundle bit_operations_syntax

section \<open>Values of the HLR record\<close>

text \<open>
  An HLR record is the Python dict decoded from the provider's JSON (or from the cache).
  Its values are JSON scalars. Python's \<open>==\<close> between such values is written out:
  \<open>bool\<close> is a subclass of \<open>int\<close>, so \<open>False == 0\<close> and \<open>True == 1\<close> hold, while a
  string or \<open>None\<close> never equals a number.
\<close>

datatype json = JNull | JBool bool | JInt int | JStr string

type_synonym hlr_record = "string \<rightharpoonup> json"

fun int_of_bool :: "bool \<Rightarrow> int" where
  "int_of_bool True = 1"
| "int_of_bool False = 0"

fun py_eq :: "json \<Rightarrow> json \<Rightarrow> bool" where
  "py_eq JNull JNull = True"
| "py_eq (JBool a) (JBool b) = (a = b)"
| "py_eq (JBool a) (JInt j) = (int_of_bool a = j)"
| "py_eq (JInt i) (JBool b) = (i = int_of_bool b)"
| "py_eq (JInt i) (JInt j) = (i = j)"
| "py_eq (JStr s) (JStr t) = (s = t)"
| "py_eq _ _ = False"

text \<open>\<open>d.get(key, default)\<close>.\<close>

definition dict_get :: "hlr_record \<Rightarrow> string \<Rightarrow> json \<Rightarrow> json" where
  "dict_get d k dflt = (case d k of None \<Rightarrow> dflt | Some v \<Rightarrow> v)"

section \<open>hlr/client.py: classification\<close>

definition classify_result :: "hlr_record \<Rightarrow> string" where
  "classify_result result =
     (let error = dict_get result ''error'' (JInt 0);
          status = dict_get result ''status'' (JInt 1)
      in if py_eq error (JInt 0) \<and> py_eq status (JInt 0) then ''valid'' else ''invalid'')"

section \<open>smpp/pdu_builder.py\<close>

subsection \<open>generate_message_id\<close>

text \<open>
  \<open>uuid.uuid4()\<close> draws 16 random bytes and stamps the variant and version bits;
  \<open>str\<close> prints the 128-bit value as 32 lower-case hexadecimal digits grouped
  8-4-4-4-12 by hyphens. The random bytes are the parameter \<open>rnd\<close>.
\<close>

definition uuid4 :: "128 word \<Rightarrow> 128 word" where
  "uuid4 rnd =
     (let i1 = rnd AND NOT (push_bit 48 0xc000);
          i2 = i1 OR push_bit 48 0x8000;
          i3 = i2 AND NOT (push_bit 64 0xf000)
      in i3 OR push_bit 76 4)"

definition hex_digit :: "nat \<Rightarrow> char" where
  "hex_digit d = (if d < 10 then char_of (48 + d) else char_of (87 + d))"

definition hex32 :: "128 word \<Rightarrow> string" where
  "hex32 u = map (\<lambda>i. hex_digit (unat (drop_bit (4 * (31 - i)) u AND 0xf))) [0..<32]"

definition uuid_str :: "128 word \<Rightarrow> string" where
  "uuid_str u =
     (let h = hex32 u
      in take 8 h @ ''-'' @ take 4 (drop 8 h) @ ''-'' @ take 4 (drop 12 h) @ ''-''
         @ take 4 (drop 16 h) @ ''-'' @ drop 20 h)"

definition generate_message_id :: "128 word \<Rightarrow> string" where
  "generate_message_id rnd = uuid_str (uuid4 rnd)"

subsection \<open>format_smpp_date and build_dlr_text\<close>

record datetime =
  year :: nat
  month :: nat
  day :: nat
  hour :: nat
  minute :: nat

text \<open>The ranges Python's \<open>datetime\<close> guarantees for its fields.\<close>

definition valid_datetime :: "datetime \<Rightarrow> bool" where
  "valid_datetime dt =
     (1 \<le> year dt \<and> year dt \<le> 9999 \<and> 1 \<le> month dt \<and> month dt \<le> 12 \<and>
      1 \<le> day dt \<and> day dt \<le> 31 \<and> hour dt < 24 \<and> minute dt < 60)"

definition dec_digit :: "nat \<Rightarrow> char" where
  "dec_digit d = char_of (48 + d)"

text \<open>A two-digit, zero-padded field of \<open>strftime\<close> (its argument is below 100).\<close>

definition pad2 :: "nat \<Rightarrow> string" where
  "pad2 n = [dec_digit (n div 10), dec_digit (n mod 10)]"

definition format_smpp_date :: "datetime \<Rightarrow> string" where
  "format_smpp_date dt =
     pad2 (year dt mod 100) @ pad2 (month dt) @ pad2 (day dt) @ pad2 (hour dt) @ pad2 (minute dt)"

text \<open>
  \<open>build_dlr_text\<close>: an absent date is replaced by \<open>datetime.now()\<close>; the two clock
  readings are the parameters \<open>now1\<close> and \<open>now2\<close>.
\<close>

definition build_dlr_text ::
  "string \<Rightarrow> string \<Rightarrow> string \<Rightarrow> datetime option \<Rightarrow> datetime option \<Rightarrow> datetime \<Rightarrow> datetime \<Rightarrow> string" where
  "build_dlr_text message_id stat err submit_date done_date now1 now2 =
     (let sd = (case submit_date of None \<Rightarrow> now1 | Some d \<Rightarrow> d);
          dd = (case done_date of None \<Rightarrow> now2 | Some d \<Rightarrow> d)
      in ''id:'' @ message_id @ '' ''
         @ ''sub:001 ''
         @ ''dlvrd:000 ''
         @ ''submit date:'' @ format_smpp_date sd @ '' ''
         @ ''done date:'' @ format_smpp_date dd @ '' ''
         @ ''stat:'' @ stat @ '' ''
         @ ''err:'' @ err @ '' ''
         @ ''text:'')"

subsection \<open>get_error_code_from_hlr and get_reason\<close>

definition get_error_code_from_hlr :: "hlr_record \<Rightarrow> string" where
  "get_error_code_from_hlr hlr_result =
     (let error = dict_get hlr_result ''error'' (JInt 0);
          status = dict_get hlr_result ''status'' (JInt 0);
          present = dict_get hlr_result ''present'' (JStr ''na'')
      in if py_eq status (JInt 1) then ''000''
         else if py_eq error (JInt 1) then ''000''
         else if py_eq error (JInt 2) then ''000''
         else if py_eq error (JInt 191) \<or> py_eq error (JInt 192) then ''000''
         else if py_eq error (JInt 193) then ''000''
         else if py_eq present (JStr ''no'') then ''000''
         else ''000'')"

datatype exn =
  IncompleteReadError | IndexError | TypeError | ValueError | StructError | UnicodeEncodeError

text \<open>\<open>error >= 191\<close> raises \<open>TypeError\<close> when \<open>error\<close> is a string or \<open>None\<close>.\<close>

fun py_ge_int :: "json \<Rightarrow> int \<Rightarrow> exn + bool" where
  "py_ge_int (JInt i) n = Inr (n \<le> i)"
| "py_ge_int (JBool b) n = Inr (n \<le> int_of_bool b)"
| "py_ge_int _ n = Inl TypeError"

definition get_reason :: "hlr_record \<Rightarrow> exn + string" where
  "get_reason hlr_result =
     (let error = dict_get hlr_result ''error'' (JInt 0)
      in if py_eq error (JInt 0) then Inr ''invalid_number''
         else (case py_ge_int error 191 of
                 Inl e \<Rightarrow> Inl e
               | Inr ge \<Rightarrow> if ge then Inr ''invalid_number'' else Inr ''invalid_number''))"

section \<open>smpp/handler.py: handle_submit_sm\<close>

definition ESME_ROK :: nat where "ESME_ROK = 0x00000000"
definition ESME_RINVDSTADR :: nat where "ESME_RINVDSTADR = 0x0000000B"
definition ESME_RSYSERR :: nat where "ESME_RSYSERR = 0x00000008"

text \<open>
  The outcome of \<open>await hlr_client.lookup(destination_addr)\<close>: a record, a
  \<open>httpx.TimeoutException\<close>, or any other exception.
\<close>

datatype hlr_outcome = HLR_Result hlr_record | HLR_Timeout | HLR_Error

record submit_result =
  command_status :: nat
  message_id :: "string option"

text \<open>The arguments of the coroutine handed to \<open>asyncio.create_task\<close>.\<close>

record dlr_task =
  task_message_id :: string
  task_destination_addr :: string
  task_source_addr :: string
  task_hlr_result :: hlr_record

text \<open>
  \<open>handle_submit_sm\<close> returns the response dict, or \<open>None\<close> when the timeout branch
  falls through, together with the list of tasks it created. \<open>policy\<close> is
  \<open>settings.hlr_timeout_policy\<close>, \<open>rnd\<close> the random bytes of the message id, and
  \<open>lookup\<close> the HLR resolver.
\<close>

definition handle_submit_sm ::
  "string \<Rightarrow> 128 word \<Rightarrow> (string \<Rightarrow> hlr_outcome) \<Rightarrow> string \<Rightarrow> string \<Rightarrow> 8 word list
     \<Rightarrow> submit_result option \<times> dlr_task list" where
  "handle_submit_sm policy rnd lookup source_addr destination_addr short_message =
     (let mid = generate_message_id rnd
      in case lookup destination_addr of
           HLR_Result hlr_result \<Rightarrow>
             (let classification = dict_get hlr_result ''classification'' (JStr ''invalid'')
              in if py_eq classification (JStr ''valid'')
                 then (Some \<lparr>command_status = ESME_RINVDSTADR, message_id = None\<rparr>, [])
                 else (Some \<lparr>command_status = ESME_ROK, message_id = Some mid\<rparr>,
                       [\<lparr>task_message_id = mid, task_destination_addr = destination_addr,
                         task_source_addr = source_addr, task_hlr_result = hlr_result\<rparr>]))
         | HLR_Timeout \<Rightarrow>
             (if policy = ''reject''
              then (Some \<lparr>command_status = ESME_RSYSERR, message_id = None\<rparr>, [])
              else (None, []))
         | HLR_Error \<Rightarrow> (Some \<lparr>command_status = ESME_RSYSERR, message_id = None\<rparr>, []))"

section \<open>smpp/server.py: the wire format\<close>

type_synonym byte = "8 word"

text \<open>\<open>struct.pack('>I', n)\<close> and \<open>struct.unpack('>I', b)\<close> on a four-byte slice.\<close>

definition be32 :: "nat \<Rightarrow> byte list" where
  "be32 n = [of_nat (n div 16777216), of_nat (n div 65536), of_nat (n div 256), of_nat n]"

definition un_be32 :: "byte list \<Rightarrow> nat" where
  "un_be32 bs = unat (bs ! 0) * 16777216 + unat (bs ! 1) * 65536 + unat (bs ! 2) * 256 + unat (bs ! 3)"

text \<open>\<open>struct.pack('>IIII', ...)\<close> raises \<open>struct.error\<close> on a value outside 32 bits.\<close>

definition pack_header :: "nat \<Rightarrow> nat \<Rightarrow> nat \<Rightarrow> nat \<Rightarrow> byte list option" where
  "pack_header command_length command_id status sequence =
     (if command_length < 4294967296 \<and> command_id < 4294967296 \<and> status < 4294967296
         \<and> sequence < 4294967296
      then Some (be32 command_length @ be32 command_id @ be32 status @ be32 sequence)
      else None)"

definition unpack_header :: "byte list \<Rightarrow> nat \<times> nat \<times> nat \<times> nat" where
  "unpack_header header =
     (un_be32 (take 4 header), un_be32 (take 4 (drop 4 header)),
      un_be32 (take 4 (drop 8 header)), un_be32 (take 4 (drop 12 header)))"

text \<open>
  The peer's byte stream is the list of all bytes it sends before closing.
  \<open>reader.readexactly(n)\<close> returns the next \<open>n\<close> bytes and the rest of the stream, or
  raises \<open>IncompleteReadError\<close> when fewer than \<open>n\<close> bytes are left.
\<close>

definition readexactly :: "nat \<Rightarrow> byte list \<Rightarrow> exn + (byte list \<times> byte list)" where
  "readexactly n stream =
     (if length stream < n then Inl IncompleteReadError else Inr (take n stream, drop n stream))"

record pdu =
  pdu_command_id :: nat
  pdu_command_status :: nat
  pdu_sequence :: nat
  pdu_body :: "byte list"

text \<open>
  The reading half of one iteration of \<open>SMPPSession.run\<close>: the header, then the body
  when \<open>command_length - 16\<close> is positive. The result carries the unread stream.
\<close>

definition read_pdu :: "byte list \<Rightarrow> exn + (pdu \<times> byte list)" where
  "read_pdu stream =
     (case readexactly 16 stream of
        Inl e \<Rightarrow> Inl e
      | Inr (header, rest) \<Rightarrow>
          (case unpack_header header of
             (command_length, command_id, status, sequence) \<Rightarrow>
               (let body_length = int command_length - 16
                in if body_length > 0
                   then (case readexactly (nat body_length) rest of
                           Inl e \<Rightarrow> Inl e
                         | Inr (body, rest') \<Rightarrow>
                             Inr (\<lparr>pdu_command_id = command_id, pdu_command_status = status,
                                   pdu_sequence = sequence, pdu_body = body\<rparr>, rest'))
                   else Inr (\<lparr>pdu_command_id = command_id, pdu_command_status = status,
                              pdu_sequence = sequence, pdu_body = []\<rparr>, rest))))"

subsection \<open>Strings and bytes\<close>

text \<open>\<open>bytes.decode('ascii', errors='ignore')\<close> drops every byte above 127.\<close>

definition decode_ascii_ignore :: "byte list \<Rightarrow> string" where
  "decode_ascii_ignore bs = map (\<lambda>b. char_of (unat b)) (filter (\<lambda>b. unat b < 128) bs)"

text \<open>\<open>str.encode('ascii')\<close> raises \<open>UnicodeEncodeError\<close> on a character above 127.\<close>

definition encode_ascii :: "string \<Rightarrow> byte list option" where
  "encode_ascii s =
     (if list_all (\<lambda>c. (of_char c :: nat) < 128) s then Some (map (\<lambda>c. of_nat (of_char c)) s)
      else None)"

text \<open>\<open>body.split(b'\x00')\<close>: the fields between NUL bytes; never an empty list.\<close>

fun split_nul :: "byte list \<Rightarrow> byte list list" where
  "split_nul [] = [[]]"
| "split_nul (b # bs) =
     (if b = 0 then [] # split_nul bs
      else (case split_nul bs of f # fs \<Rightarrow> (b # f) # fs | [] \<Rightarrow> [[b]]))"

definition parse_bind_body :: "byte list \<Rightarrow> string \<times> string" where
  "parse_bind_body body =
     (let fields = split_nul body;
          sid = (if fields \<noteq> [] then decode_ascii_ignore (fields ! 0) else []);
          password = (if length fields > 1 then decode_ascii_ignore (fields ! 1) else [])
      in (sid, password))"

text \<open>
  \<open>body.find(b'\x00', offset)\<close> for an offset that is not negative: the index of the
  first NUL at or after \<open>offset\<close>, or \<open>-1\<close>.
\<close>

definition find_nul :: "byte list \<Rightarrow> int \<Rightarrow> int" where
  "find_nul body offset =
     (let rest = drop (nat offset) body
      in if 0 \<in> set rest then offset + int (length (takeWhile (\<lambda>b. b \<noteq> 0) rest)) else - 1)"

text \<open>Python's slice \<open>xs[i:j]\<close>: a negative index counts from the end, both are clamped.\<close>

definition py_index :: "int \<Rightarrow> int \<Rightarrow> int" where
  "py_index i n = (if i < 0 then max 0 (i + n) else min i n)"

definition py_slice :: "'a list \<Rightarrow> int \<Rightarrow> int \<Rightarrow> 'a list" where
  "py_slice xs i j =
     (let n = int (length xs); a = py_index i n; b = py_index j n
      in take (nat (b - a)) (drop (nat a) xs))"

record submit_fields =
  source_addr :: string
  destination_addr :: string
  short_message :: "byte list"

definition parse_submit_sm :: "byte list \<Rightarrow> exn + submit_fields" where
  "parse_submit_sm body =
     (let offset0 = 0;
          service_type_end = find_nul body offset0;
          offset1 = service_type_end + 1;
          offset2 = offset1 + 2;
          source_addr_end = find_nul body offset2;
          src = decode_ascii_ignore (py_slice body offset2 source_addr_end);
          offset3 = source_addr_end + 1;
          offset4 = offset3 + 2;
          dest_addr_end = find_nul body offset4;
          dst = decode_ascii_ignore (py_slice body offset4 dest_addr_end);
          offset5 = dest_addr_end + 1;
          offset6 = offset5 + 3;
          schedule_end = find_nul body offset6;
          offset7 = schedule_end + 1;
          validity_end = find_nul body offset7;
          offset8 = validity_end + 1;
          offset9 = offset8 + 4
      in if offset9 \<ge> int (length body) then Inl IndexError
         else (let sm_length = int (unat (body ! nat offset9));
                   offset10 = offset9 + 1
               in Inr \<lparr>source_addr = src, destination_addr = dst,
                        short_message = py_slice body offset10 (offset10 + sm_length)\<rparr>))"

section \<open>smpp/server.py: the session\<close>

definition SMPP_CMD_BIND_TRANSMITTER :: nat where "SMPP_CMD_BIND_TRANSMITTER = 0x00000001"
definition SMPP_CMD_BIND_TRANSMITTER_RESP :: nat where "SMPP_CMD_BIND_TRANSMITTER_RESP = 0x80000001"
definition SMPP_CMD_BIND_RECEIVER :: nat where "SMPP_CMD_BIND_RECEIVER = 0x00000002"
definition SMPP_CMD_BIND_RECEIVER_RESP :: nat where "SMPP_CMD_BIND_RECEIVER_RESP = 0x80000002"
definition SMPP_CMD_BIND_TRANSCEIVER :: nat where "SMPP_CMD_BIND_TRANSCEIVER = 0x00000009"
definition SMPP_CMD_BIND_TRANSCEIVER_RESP :: nat where "SMPP_CMD_BIND_TRANSCEIVER_RESP = 0x80000009"
definition SMPP_CMD_UNBIND :: nat where "SMPP_CMD_UNBIND = 0x00000006"
definition SMPP_CMD_UNBIND_RESP :: nat where "SMPP_CMD_UNBIND_RESP = 0x80000006"
definition SMPP_CMD_SUBMIT_SM :: nat where "SMPP_CMD_SUBMIT_SM = 0x00000004"
definition SMPP_CMD_SUBMIT_SM_RESP :: nat where "SMPP_CMD_SUBMIT_SM_RESP = 0x80000004"
definition SMPP_CMD_ENQUIRE_LINK :: nat where "SMPP_CMD_ENQUIRE_LINK = 0x00000015"
definition SMPP_CMD_ENQUIRE_LINK_RESP :: nat where "SMPP_CMD_ENQUIRE_LINK_RESP = 0x80000015"
definition SMPP_ESME_RINVBNDSTS :: nat where "SMPP_ESME_RINVBNDSTS = 0x00000004"
definition SMPP_ESME_RINVPASWD :: nat where "SMPP_ESME_RINVPASWD = 0x0000000E"
definition SMPP_CMD_DELIVER_SM :: nat where "SMPP_CMD_DELIVER_SM = 0x00000005"
definition SMPP_CMD_DELIVER_SM_RESP :: nat where "SMPP_CMD_DELIVER_SM_RESP = 0x80000005"

text \<open>The fields of \<open>Settings\<close> that the session and the handler read.\<close>

record settings =
  smpp_system_id :: string
  smpp_password :: string
  hlr_timeout_policy :: string

text \<open>
  The world outside the session, indexed by the number of SubmitSM handled so far: what
  the HLR resolver answers and which random bytes the message id is drawn from.
\<close>

record env =
  hlr_lookup :: "nat \<Rightarrow> string \<Rightarrow> hlr_outcome"
  urandom :: "nat \<Rightarrow> 128 word"

text \<open>
  \<open>SMPPSession\<close>: its three mutable attributes, the bytes written to \<open>self.writer\<close> so
  far, the DLR tasks created on the event loop, and the count of SubmitSM handled.
\<close>

record session =
  authenticated :: bool
  system_id :: "string option"
  sequence_number :: nat
  writer :: "byte list"
  tasks :: "dlr_task list"
  submits :: nat

text \<open>
  A handler returns the session as it left it and the exception that escapes it, if any.
\<close>

definition send_response ::
  "session \<Rightarrow> nat \<Rightarrow> nat \<Rightarrow> nat \<Rightarrow> byte list \<Rightarrow> session \<times> exn option" where
  "send_response s command_id status sequence body =
     (let command_length = 16 + length body
      in case pack_header command_length command_id status sequence of
           None \<Rightarrow> (s, Some StructError)
         | Some header \<Rightarrow> (s\<lparr>writer := writer s @ header @ body\<rparr>, None))"

definition send_error_response :: "session \<Rightarrow> nat \<Rightarrow> nat \<Rightarrow> nat \<Rightarrow> session \<times> exn option" where
  "send_error_response s command_id error_code sequence =
     send_response s command_id error_code sequence []"

definition handle_enquire_link :: "session \<Rightarrow> nat \<Rightarrow> session \<times> exn option" where
  "handle_enquire_link s sequence =
     (let command_length = 16
      in case pack_header command_length SMPP_CMD_ENQUIRE_LINK_RESP 0 sequence of
           None \<Rightarrow> (s, Some StructError)
         | Some header \<Rightarrow> (s\<lparr>writer := writer s @ header\<rparr>, None))"

definition handle_bind ::
  "settings \<Rightarrow> session \<Rightarrow> byte list \<Rightarrow> nat \<Rightarrow> nat \<Rightarrow> session \<times> exn option" where
  "handle_bind cfg s body sequence resp_cmd =
     (case parse_bind_body body of
        (sid, password) \<Rightarrow>
          if sid = smpp_system_id cfg \<and> password = smpp_password cfg
          then send_response (s\<lparr>authenticated := True, system_id := Some sid\<rparr>)
                 resp_cmd 0 sequence (map of_char ''SMPPGateway'' @ [0])
          else send_error_response s resp_cmd SMPP_ESME_RINVPASWD sequence)"

definition handle_unbind :: "session \<Rightarrow> nat \<Rightarrow> session \<times> exn option" where
  "handle_unbind s sequence =
     (case send_response s SMPP_CMD_UNBIND_RESP 0 sequence [] of
        (s', Some e) \<Rightarrow> (s', Some e)
      | (s', None) \<Rightarrow> (s'\<lparr>authenticated := False\<rparr>, None))"

text \<open>
  \<open>SMPPSession._handle_submit_sm\<close>: parse, call the handler, answer. Subscripting a
  \<open>None\<close> result raises \<open>TypeError\<close>.
\<close>

definition session_handle_submit_sm ::
  "settings \<Rightarrow> env \<Rightarrow> session \<Rightarrow> byte list \<Rightarrow> nat \<Rightarrow> session \<times> exn option" where
  "session_handle_submit_sm cfg e s body sequence =
     (case parse_submit_sm body of
        Inl x \<Rightarrow> (s, Some x)
      | Inr parsed \<Rightarrow>
          (case handle_submit_sm (hlr_timeout_policy cfg) (urandom e (submits s))
                  (hlr_lookup e (submits s)) (source_addr parsed) (destination_addr parsed)
                  (short_message parsed) of
             (result, created) \<Rightarrow>
               (let s1 = s\<lparr>tasks := tasks s @ created, submits := submits s + 1\<rparr>
                in case result of
                     None \<Rightarrow> (s1, Some TypeError)
                   | Some r \<Rightarrow>
                       (case message_id r of
                          None \<Rightarrow> send_response s1 SMPP_CMD_SUBMIT_SM_RESP (command_status r)
                                    sequence [0]
                        | Some m \<Rightarrow>
                            if m \<noteq> []
                            then (case encode_ascii m of
                                    None \<Rightarrow> (s1, Some UnicodeEncodeError)
                                  | Some bs \<Rightarrow>
                                      send_response s1 SMPP_CMD_SUBMIT_SM_RESP (command_status r)
                                        sequence (bs @ [0]))
                            else send_response s1 SMPP_CMD_SUBMIT_SM_RESP (command_status r)
                                   sequence [0]))))"

text \<open>
  \<open>send_deliver_sm\<close>: everything after the authentication check runs inside
  \<open>try ... except Exception\<close>, so a failure writes nothing and is only logged.
  \<open>bytes([sm_len])\<close> raises \<open>ValueError\<close> above 255.
\<close>

definition send_deliver_sm :: "session \<Rightarrow> string \<Rightarrow> string \<Rightarrow> byte list \<Rightarrow> session" where
  "send_deliver_sm s src dst msg =
     (if \<not> authenticated s then s
      else (case encode_ascii src of
              None \<Rightarrow> s
            | Some src_bytes \<Rightarrow>
                (case encode_ascii dst of
                   None \<Rightarrow> s
                 | Some dst_bytes \<Rightarrow>
                     (let sm_len = length msg
                      in if sm_len > 255 then s
                         else (let body = [0] @ [1, 1] @ src_bytes @ [0] @ [1, 1] @ dst_bytes @ [0]
                                          @ [0x04] @ [0, 0] @ [0] @ [0] @ [1, 0] @ [0] @ [0]
                                          @ [of_nat sm_len] @ msg;
                                   sequence = sequence_number s;
                                   s1 = s\<lparr>sequence_number := sequence + 1\<rparr>
                               in fst (send_response s1 SMPP_CMD_DELIVER_SM 0 sequence body))))))"

text \<open>
  \<open>SubmitSMHandler._send_DELIVRD_dlr\<close> once its delay has elapsed, with the two clock
  readings of \<open>build_dlr_text\<close>. An exception of \<open>get_reason\<close> or of the encoding is
  caught and logged: nothing is sent.
\<close>

definition send_DELIVRD_dlr :: "session \<Rightarrow> dlr_task \<Rightarrow> datetime \<Rightarrow> datetime \<Rightarrow> session" where
  "send_DELIVRD_dlr s t now1 now2 =
     (let error_code = get_error_code_from_hlr (task_hlr_result t);
          dlr_text = build_dlr_text (task_message_id t) ''DELIVRD'' error_code None None now1 now2
      in case get_reason (task_hlr_result t) of
           Inl x \<Rightarrow> s
         | Inr reason \<Rightarrow>
             (case encode_ascii dlr_text of
                None \<Rightarrow> s
              | Some bs \<Rightarrow> send_deliver_sm s (task_destination_addr t) (task_source_addr t) bs))"

definition process_pdu :: "settings \<Rightarrow> env \<Rightarrow> session \<Rightarrow> pdu \<Rightarrow> session \<times> exn option" where
  "process_pdu cfg e s p =
     (let command_id = pdu_command_id p; sequence = pdu_sequence p; body = pdu_body p
      in if command_id = SMPP_CMD_BIND_TRANSMITTER
         then handle_bind cfg s body sequence SMPP_CMD_BIND_TRANSMITTER_RESP
         else if command_id = SMPP_CMD_BIND_RECEIVER
         then handle_bind cfg s body sequence SMPP_CMD_BIND_RECEIVER_RESP
         else if command_id = SMPP_CMD_BIND_TRANSCEIVER
         then handle_bind cfg s body sequence SMPP_CMD_BIND_TRANSCEIVER_RESP
         else if command_id = SMPP_CMD_UNBIND
         then handle_unbind s sequence
         else if command_id = SMPP_CMD_SUBMIT_SM
         then (if authenticated s
               then session_handle_submit_sm cfg e s body sequence
               else send_error_response s SMPP_CMD_SUBMIT_SM_RESP SMPP_ESME_RINVBNDSTS sequence)
         else if command_id = SMPP_CMD_ENQUIRE_LINK
         then handle_enquire_link s sequence
         else (s, None))"

lemma read_pdu_shorter:
  assumes "read_pdu stream = Inr (p, rest)"
  shows "length rest < length stream"
  using assms
  by (auto simp: read_pdu_def readexactly_def Let_def split: if_splits prod.splits)

text \<open>
  \<open>SMPPSession.run\<close>: read and process PDUs until a read fails or a handler raises;
  every exception ends the loop. The result is the session when the loop is left.
\<close>

function run :: "settings \<Rightarrow> env \<Rightarrow> session \<Rightarrow> byte list \<Rightarrow> session" where
  "run cfg e s stream =
     (case read_pdu stream of
        Inl x \<Rightarrow> s
      | Inr (p, rest) \<Rightarrow>
          (case process_pdu cfg e s p of
             (s', Some x) \<Rightarrow> s'
           | (s', None) \<Rightarrow> run cfg e s' rest))"
  by pat_completeness auto
termination
  by (relation "measure (\<lambda>(cfg, e, s, stream). length stream)") (auto simp: read_pdu_shorter)

declare run.simps [simp del]

section \<open>examples/test_client.py: what a peer sends\<close>

text \<open>
  \<open>SimpleSmppClient._send_pdu\<close> sends the header, with status 0, followed by the body.
\<close>

definition send_pdu_bytes :: "nat \<Rightarrow> nat \<Rightarrow> byte list \<Rightarrow> byte list" where
  "send_pdu_bytes command_id sequence body =
     be32 (16 + length body) @ be32 command_id @ be32 0 @ be32 sequence @ body"

section \<open>Fixtures\<close>

text \<open>
  The defaults of \<open>Settings\<close> in config.py, and an environment in which no HLR lookup
  succeeds and the random source returns zero bytes.
\<close>

definition default_settings :: settings where
  "default_settings =
     \<lparr>smpp_system_id = ''testuser'', smpp_password = ''testpass'',
      hlr_timeout_policy = ''reject''\<rparr>"

definition hlr_down :: env where
  "hlr_down = \<lparr>hlr_lookup = (\<lambda>_ _. HLR_Error), urandom = (\<lambda>_. 0)\<rparr>"

definition fresh_session :: session where
  "fresh_session =
     \<lparr>authenticated = False, system_id = None, sequence_number = 1, writer = [], tasks = [],
      submits = 0\<rparr>"

section \<open>The regular expression of the DLR text\<close>

text \<open>
  Regular expressions with the two character classes the DLR pattern uses, matched by
  derivatives. \<open>\S\<close> and \<open>\d\<close> are Python's classes on the code points below 256.
\<close>

datatype rexp =
  Zero | One | Chr char | NotSpace | Digit | Alt rexp rexp | Seq rexp rexp | Star rexp

definition is_space :: "char \<Rightarrow> bool" where
  "is_space c = ((of_char c :: nat) \<in> set [9, 10, 11, 12, 13, 28, 29, 30, 31, 32, 133, 160])"

definition is_digit :: "char \<Rightarrow> bool" where
  "is_digit c = (48 \<le> (of_char c :: nat) \<and> (of_char c :: nat) \<le> 57)"

fun nullable :: "rexp \<Rightarrow> bool" where
  "nullable Zero = False"
| "nullable One = True"
| "nullable (Chr c) = False"
| "nullable NotSpace = False"
| "nullable Digit = False"
| "nullable (Alt r s) = (nullable r \<or> nullable s)"
| "nullable (Seq r s) = (nullable r \<and> nullable s)"
| "nullable (Star r) = True"

fun deriv :: "char \<Rightarrow> rexp \<Rightarrow> rexp" where
  "deriv c Zero = Zero"
| "deriv c One = Zero"
| "deriv c (Chr d) = (if c = d then One else Zero)"
| "deriv c NotSpace = (if is_space c then Zero else One)"
| "deriv c Digit = (if is_digit c then One else Zero)"
| "deriv c (Alt r s) = Alt (deriv c r) (deriv c s)"
| "deriv c (Seq r s) =
     (if nullable r then Alt (Seq (deriv c r) s) (deriv c s) else Seq (deriv c r) s)"
| "deriv c (Star r) = Seq (deriv c r) (Star r)"

fun matches :: "rexp \<Rightarrow> string \<Rightarrow> bool" where
  "matches r [] = nullable r"
| "matches r (c # cs) = matches (deriv c r) cs"

fun lit :: "string \<Rightarrow> rexp" where
  "lit [] = One"
| "lit (c # cs) = Seq (Chr c) (lit cs)"

fun rep :: "nat \<Rightarrow> rexp \<Rightarrow> rexp" where
  "rep 0 r = One"
| "rep (Suc n) r = Seq r (rep n r)"

text \<open>
  \<open>id:\S+ sub:001 dlvrd:000 submit date:\d{10} done date:\d{10} stat:DELIVRD err:000 text:\<close>
\<close>

definition dlr_regex :: rexp where
  "dlr_regex =
     Seq (lit ''id:'') (Seq (Seq NotSpace (Star NotSpace))
       (Seq (lit '' sub:001 dlvrd:000 submit date:'') (Seq (rep 10 Digit)
         (Seq (lit '' done date:'') (Seq (rep 10 Digit)
           (lit '' stat:DELIVRD err:000 text:''))))))"

text \<open>
  Matching between \<open>^\<close> and \<open>$\<close>: the whole string, or the whole string before one
  final newline.
\<close>

definition re_match :: "rexp \<Rightarrow> string \<Rightarrow> bool" where
  "re_match r s = (matches r s \<or> (s \<noteq> [] \<and> last s = CHR 0x0A \<and> matches r (butlast s)))"

section \<open>Auxiliary lemmas\<close>

subsection \<open>Matching\<close>

lemma matches_Zero: "matches Zero s = False"
  by (induction s) auto

lemma matches_Alt: "matches (Alt r1 r2) s = (matches r1 s \<or> matches r2 s)"
  by (induction s arbitrary: r1 r2) auto

lemma matches_Seq_Zero: "matches (Seq Zero r) s = False"
  by (induction s) auto

lemma matches_Seq_One: "matches (Seq One r) s = matches r s"
  by (cases s) (auto simp: matches_Alt matches_Seq_Zero)

lemma matches_Seq:
  "matches r1 s1 \<Longrightarrow> matches r2 s2 \<Longrightarrow> matches (Seq r1 r2) (s1 @ s2)"
proof (induction s1 arbitrary: r1)
  case Nil
  then show ?case by (cases s2) (auto simp: matches_Alt)
next
  case (Cons c s1)
  then show ?case by (auto simp: matches_Alt)
qed

lemma matches_lit: "matches (lit s) s"
  by (induction s) (auto simp: matches_Seq_One)

lemma matches_Star_NotSpace: "\<forall>c\<in>set s. \<not> is_space c \<Longrightarrow> matches (Star NotSpace) s"
  by (induction s) (auto simp: matches_Seq_One)

lemma matches_Plus_NotSpace:
  "s \<noteq> [] \<Longrightarrow> \<forall>c\<in>set s. \<not> is_space c \<Longrightarrow> matches (Seq NotSpace (Star NotSpace)) s"
  by (cases s) (auto simp: matches_Seq_One matches_Star_NotSpace)

lemma matches_rep_Digit:
  "length s = n \<Longrightarrow> \<forall>c\<in>set s. is_digit c \<Longrightarrow> matches (rep n Digit) s"
  by (induction s arbitrary: n) (auto simp: matches_Seq_One)

subsection \<open>Dates and error codes\<close>

lemma is_digit_dec_digit: "d < 10 \<Longrightarrow> is_digit (dec_digit d)"
  by (simp add: is_digit_def dec_digit_def)

lemma pad2_digits: "n < 100 \<Longrightarrow> \<forall>c\<in>set (pad2 n). is_digit c"
  by (simp add: pad2_def is_digit_dec_digit)

lemma format_smpp_date_digits:
  "valid_datetime dt \<Longrightarrow> \<forall>c\<in>set (format_smpp_date dt). is_digit c"
  by (auto simp: format_smpp_date_def valid_datetime_def dest!: pad2_digits[THEN bspec, rotated])

lemma format_smpp_date_length: "length (format_smpp_date dt) = 10"
  by (simp add: format_smpp_date_def pad2_def)

lemma get_error_code_000: "get_error_code_from_hlr r = ''000''"
  by (simp add: get_error_code_from_hlr_def Let_def)

subsection \<open>Message ids\<close>

lemma length_hex32: "length (hex32 u) = 32"
  by (simp add: hex32_def)

lemma length_generate_message_id: "length (generate_message_id rnd) = 36"
  by (simp add: generate_message_id_def uuid_str_def Let_def length_hex32)

lemma generate_message_id_example:
  "generate_message_id 0x0123456789abcdef0123456789abcdef
     = ''01234567-89ab-4def-8123-456789abcdef''"
  by code_simp

lemma unat_and_15: "unat (w AND 0xf :: 128 word) < 16"
proof -
  have "w AND 0xf \<le> 0xf"
    by (rule word_and_le1)
  then have "unat (w AND 0xf) \<le> unat (0xf :: 128 word)"
    by (simp only: word_le_nat_alt)
  then show ?thesis
    by simp
qed

lemma hex_digit_not_space: "d < 16 \<Longrightarrow> \<not> is_space (hex_digit d)"
  by (auto simp: is_space_def hex_digit_def)

lemma hex32_not_space: "\<forall>c\<in>set (hex32 u). \<not> is_space c"
  by (auto simp: hex32_def intro!: hex_digit_not_space unat_and_15)

lemma hyphen_not_space: "\<not> is_space CHR ''-''"
  by (simp add: is_space_def)

lemma generate_message_id_not_space: "\<forall>c\<in>set (generate_message_id rnd). \<not> is_space c"
  using hex32_not_space [of "uuid4 rnd"] hyphen_not_space
  by (auto simp: generate_message_id_def uuid_str_def Let_def dest: in_set_takeD in_set_dropD)

lemma generate_message_id_not_empty: "generate_message_id rnd \<noteq> []"
  using length_generate_message_id [of rnd] by auto

subsection \<open>The wire format\<close>

lemma be32_arith:
  fixes n :: nat
  shows "n div 16777216 * 16777216 + n div 65536 mod 256 * 65536 + n div 256 mod 256 * 256
           + n mod 256 = n"
proof -
  have q2: "n div 65536 = n div 256 div 256" and q3: "n div 16777216 = n div 65536 div 256"
    by (simp_all add: div_mult2_eq[symmetric])
  have a: "n = n div 256 * 256 + n mod 256" by simp
  have b: "n div 256 = n div 65536 * 256 + n div 256 mod 256" unfolding q2 by simp
  have c: "n div 65536 = n div 16777216 * 256 + n div 65536 mod 256" unfolding q3 by simp
  show ?thesis using a b c by linarith
qed

lemma un_be32_be32: "n < 4294967296 \<Longrightarrow> un_be32 (be32 n) = n"
  by (simp add: un_be32_def be32_def unat_of_nat be32_arith)

lemma length_be32: "length (be32 n) = 4"
  by (simp add: be32_def)

lemma unpack_pack:
  "a < 4294967296 \<Longrightarrow> b < 4294967296 \<Longrightarrow> c < 4294967296 \<Longrightarrow> d < 4294967296 \<Longrightarrow>
   unpack_header (be32 a @ be32 b @ be32 c @ be32 d) = (a, b, c, d)"
  by (simp add: unpack_header_def length_be32 un_be32_be32)

lemma unpack_take16:
  "unpack_header (take 16 stream) =
     (un_be32 (take 4 stream), un_be32 (take 4 (drop 4 stream)),
      un_be32 (take 4 (drop 8 stream)), un_be32 (take 4 (drop 12 stream)))"
  by (simp add: unpack_header_def drop_take)

lemma read_pdu_send_pdu_bytes:
  assumes "16 + length body < 4294967296" "cid < 4294967296" "sq < 4294967296"
  shows "read_pdu (send_pdu_bytes cid sq body @ rest) =
     Inr (\<lparr>pdu_command_id = cid, pdu_command_status = 0, pdu_sequence = sq, pdu_body = body\<rparr>,
          rest)"
proof -
  let ?h = "be32 (16 + length body) @ be32 cid @ be32 0 @ be32 sq"
  have len: "length ?h = 16" by (simp add: length_be32)
  have shape: "send_pdu_bytes cid sq body @ rest = ?h @ (body @ rest)"
    by (simp add: send_pdu_bytes_def)
  have r1: "readexactly 16 (?h @ (body @ rest)) = Inr (?h, body @ rest)"
    using len by (simp add: readexactly_def)
  have up: "unpack_header ?h = (16 + length body, cid, 0, sq)"
    using assms by (intro unpack_pack) simp_all
  show ?thesis
    unfolding shape read_pdu_def r1 sum.case prod.case up
    by (simp add: readexactly_def)
qed

lemma run_continue:
  "read_pdu stream = Inr (p, rest) \<Longrightarrow> process_pdu cfg e s p = (s', None) \<Longrightarrow>
   run cfg e s stream = run cfg e s' rest"
  by (subst run.simps) simp

subsection \<open>One iteration of the session loop\<close>

lemma run_send_pdu_bytes:
  assumes "16 + length body < 4294967296" "cid < 4294967296" "sq < 4294967296"
    and "process_pdu cfg e s \<lparr>pdu_command_id = cid, pdu_command_status = 0, pdu_sequence = sq,
           pdu_body = body\<rparr> = (s', None)"
  shows "run cfg e s (send_pdu_bytes cid sq body @ rest) = run cfg e s' rest"
  using read_pdu_send_pdu_bytes [OF assms(1-3)] assms(4) by (rule run_continue)

lemma run_Nil: "run cfg e s [] = s"
  by (subst run.simps) (simp add: read_pdu_def readexactly_def)



lemma process_pdu_unbind:
  assumes "sq < 4294967296"
  shows "process_pdu cfg e s \<lparr>pdu_command_id = SMPP_CMD_UNBIND, pdu_command_status = st,
           pdu_sequence = sq, pdu_body = body\<rparr>
         = (s\<lparr>writer := writer s @ be32 16 @ be32 0x80000006 @ be32 0 @ be32 sq,
              authenticated := False\<rparr>, None)"
  using assms
  by (simp add: process_pdu_def handle_unbind_def send_response_def pack_header_def
        SMPP_CMD_BIND_TRANSMITTER_def SMPP_CMD_BIND_RECEIVER_def SMPP_CMD_BIND_TRANSCEIVER_def
        SMPP_CMD_UNBIND_def SMPP_CMD_UNBIND_RESP_def)

lemma process_pdu_enquire_link:
  assumes "sq < 4294967296"
  shows "process_pdu cfg e s \<lparr>pdu_command_id = SMPP_CMD_ENQUIRE_LINK, pdu_command_status = st,
           pdu_sequence = sq, pdu_body = body\<rparr>
         = (s\<lparr>writer := writer s @ be32 16 @ be32 0x80000015 @ be32 0 @ be32 sq\<rparr>, None)"
  using assms
  by (simp add: process_pdu_def handle_enquire_link_def pack_header_def
        SMPP_CMD_BIND_TRANSMITTER_def SMPP_CMD_BIND_RECEIVER_def SMPP_CMD_BIND_TRANSCEIVER_def
        SMPP_CMD_UNBIND_def SMPP_CMD_SUBMIT_SM_def SMPP_CMD_ENQUIRE_LINK_def
        SMPP_CMD_ENQUIRE_LINK_RESP_def)

lemma run_enquire_link:
  assumes "sq < 4294967296"
  shows "run cfg e s (send_pdu_bytes SMPP_CMD_ENQUIRE_LINK sq [] @ rest)
         = run cfg e (s\<lparr>writer := writer s @ be32 16 @ be32 0x80000015 @ be32 0 @ be32 sq\<rparr>) rest"
  by (rule run_send_pdu_bytes [OF _ _ assms process_pdu_enquire_link [OF assms]])
     (simp_all add: SMPP_CMD_ENQUIRE_LINK_def)

lemma run_enquire_link_last:
  assumes "sq < 4294967296"
  shows "run cfg e s (send_pdu_bytes SMPP_CMD_ENQUIRE_LINK sq [])
         = s\<lparr>writer := writer s @ be32 16 @ be32 0x80000015 @ be32 0 @ be32 sq\<rparr>"
  using run_enquire_link [OF assms, of cfg e s "[]"] by (simp only: append_Nil2 run_Nil)

subsection \<open>The DLR text of a message id without whitespace\<close>

lemma dlr_text_matches:
  assumes "mid \<noteq> []" and "\<forall>c\<in>set mid. \<not> is_space c"
    and "valid_datetime now1" and "valid_datetime now2"
  shows "re_match dlr_regex
           (build_dlr_text mid ''DELIVRD'' (get_error_code_from_hlr hlr_result) None None now1 now2)
         \<and> get_error_code_from_hlr hlr_result = ''000''"
proof -
  let ?d1 = "format_smpp_date now1" and ?d2 = "format_smpp_date now2"
  let ?text = "''id:'' @ (mid @ ('' sub:001 dlvrd:000 submit date:'' @ (?d1 @ ('' done date:''
                 @ (?d2 @ '' stat:DELIVRD err:000 text:'')))))"
  have shape: "build_dlr_text mid ''DELIVRD'' ''000'' None None now1 now2 = ?text"
    by (simp add: build_dlr_text_def)
  have m1: "matches (rep 10 Digit) ?d1"
    using assms(3) by (intro matches_rep_Digit format_smpp_date_length format_smpp_date_digits)
  have m2: "matches (rep 10 Digit) ?d2"
    using assms(4) by (intro matches_rep_Digit format_smpp_date_length format_smpp_date_digits)
  have "matches dlr_regex ?text"
    unfolding dlr_regex_def
    by (intro matches_Seq matches_lit matches_Plus_NotSpace m1 m2 assms(1,2))
  then have X: "matches dlr_regex (build_dlr_text mid ''DELIVRD'' ''000'' None None now1 now2)"
    by (simp only: shape)
  have Y: "re_match dlr_regex (build_dlr_text mid ''DELIVRD'' ''000'' None None now1 now2)"
    unfolding re_match_def using X by (rule disjI1)
  show ?thesis using Y by (simp only: get_error_code_000 simp_thms)
qed

lemma task_of_handle_submit_sm:
  assumes "t \<in> set (snd (handle_submit_sm policy rnd lookup src dst msg))"
  shows "task_message_id t = generate_message_id rnd"
  using assms
  by (auto simp: handle_submit_sm_def Let_def split: hlr_outcome.splits if_splits)

section \<open>Claims\<close>

subsection \<open>The submit pipeline\<close>



text \<open>
  C2, as amended. The classification is \<open>valid\<close> exactly when the error field is absent
  or equal to 0 and the status field is present and equal to 0 (Python's \<open>==\<close>); every
  record is classified, as \<open>valid\<close> or as \<open>invalid\<close>.
\<close>

theorem C2_classify_result:
  "(classify_result r = ''valid'') =
     ((r ''error'' = None \<or> (\<exists>v. r ''error'' = Some v \<and> py_eq v (JInt 0))) \<and>
      (\<exists>v. r ''status'' = Some v \<and> py_eq v (JInt 0)))
   \<and> (classify_result r = ''valid'' \<or> classify_result r = ''invalid'')"
  by (auto simp: classify_result_def dict_get_def Let_def split: option.splits)

text \<open>
  The claim as stated fails on absent fields, however they are read: a record with status
  0 and no error field is \<open>valid\<close>, and a record with error 0 and no status field is
  \<open>invalid\<close>.
\<close>

theorem C2_counterexample:
  "classify_result [''status'' \<mapsto> JInt 0] = ''valid''
   \<and> [''status'' \<mapsto> JInt 0] ''error'' = None
   \<and> classify_result [''error'' \<mapsto> JInt 0] = ''invalid''
   \<and> [''error'' \<mapsto> JInt 0] ''status'' = None"
  by (simp add: classify_result_def dict_get_def)

text \<open>
  C3. When the HLR lookup times out under the policy \<open>reject\<close>, or raises any other
  error, the response is ESME_RSYSERR (0x08) without a message id and no DLR task is
  created.
\<close>

theorem C3_lookup_error_rejected:
  assumes "lookup dst = HLR_Timeout \<and> policy = ''reject'' \<or> lookup dst = HLR_Error"
  shows "handle_submit_sm policy rnd lookup src dst msg
           = (Some \<lparr>command_status = 0x08, message_id = None\<rparr>, [])"
  using assms by (auto simp: handle_submit_sm_def ESME_RSYSERR_def)

theorem C3_witness:
  "handle_submit_sm ''reject'' 0 (\<lambda>_. HLR_Timeout) ''1234'' ''13476841841'' []
     = (Some \<lparr>command_status = 0x08, message_id = None\<rparr>, [])
   \<and> handle_submit_sm ''reject'' 0 (\<lambda>_. HLR_Error) ''1234'' ''13476841841'' []
     = (Some \<lparr>command_status = 0x08, message_id = None\<rparr>, [])"
  using C3_lookup_error_rejected [of "\<lambda>_. HLR_Timeout" "''13476841841''" "''reject''" 0 "''1234''" "[]"]
        C3_lookup_error_rejected [of "\<lambda>_. HLR_Error" "''13476841841''" "''reject''" 0 "''1234''" "[]"]
  by simp

text \<open>
  C10. A lookup result without a \<open>classification\<close> key is treated as invalid: the
  response is ESME_ROK with the generated message id and one DLR task is created for it.
\<close>

theorem C10_missing_classification_accepted:
  assumes "lookup dst = HLR_Result r" and "r ''classification'' = None"
  shows "handle_submit_sm policy rnd lookup src dst msg
           = (Some \<lparr>command_status = 0x00, message_id = Some (generate_message_id rnd)\<rparr>,
              [\<lparr>task_message_id = generate_message_id rnd, task_destination_addr = dst,
                task_source_addr = src, task_hlr_result = r\<rparr>])"
  using assms by (simp add: handle_submit_sm_def dict_get_def Let_def ESME_ROK_def)

theorem C10_witness:
  "handle_submit_sm ''reject'' 0 (\<lambda>_. HLR_Result [''error'' \<mapsto> JInt 1, ''status'' \<mapsto> JInt 1])
       ''1234'' ''40722570240999'' []
     = (Some \<lparr>command_status = 0x00, message_id = Some (generate_message_id 0)\<rparr>,
        [\<lparr>task_message_id = generate_message_id 0, task_destination_addr = ''40722570240999'',
          task_source_addr = ''1234'',
          task_hlr_result = [''error'' \<mapsto> JInt 1, ''status'' \<mapsto> JInt 1]\<rparr>])"
  using C10_missing_classification_accepted
          [of "\<lambda>_. HLR_Result [''error'' \<mapsto> JInt 1, ''status'' \<mapsto> JInt 1]" "''40722570240999''"
              "[''error'' \<mapsto> JInt 1, ''status'' \<mapsto> JInt 1]" "''reject''" 0 "''1234''" "[]"]
  by simp

subsection \<open>The DLR text\<close>

text \<open>
  C7. The message ids the DLR text is built for are the generated ones. For every
  generated message id and every HLR result, the DLR text matches
  \<open>^id:\S+ sub:001 dlvrd:000 submit date:\d{10} done date:\d{10} stat:DELIVRD err:000 text:$\<close>
  and the error code is \<open>000\<close>; so does the DLR text of every DLR task that
  \<open>handle_submit_sm\<close> creates, built from the message id and the HLR result of the task.
\<close>

theorem C7_dlr_text_matches:
  assumes "valid_datetime now1" and "valid_datetime now2"
  shows "(re_match dlr_regex
            (build_dlr_text (generate_message_id rnd) ''DELIVRD''
               (get_error_code_from_hlr hlr_result) None None now1 now2)
          \<and> get_error_code_from_hlr hlr_result = ''000'')
       \<and> (\<forall>t\<in>set (snd (handle_submit_sm policy rnd lookup src dst msg)).
            re_match dlr_regex
              (build_dlr_text (task_message_id t) ''DELIVRD''
                 (get_error_code_from_hlr (task_hlr_result t)) None None now1 now2)
            \<and> get_error_code_from_hlr (task_hlr_result t) = ''000'')"
proof (intro conjI ballI)
  show "re_match dlr_regex
          (build_dlr_text (generate_message_id rnd) ''DELIVRD''
             (get_error_code_from_hlr hlr_result) None None now1 now2)"
    using dlr_text_matches [OF generate_message_id_not_empty generate_message_id_not_space assms]
    by (rule conjunct1)
  show "get_error_code_from_hlr hlr_result = ''000''"
    by (rule get_error_code_000)
next
  fix t
  assume "t \<in> set (snd (handle_submit_sm policy rnd lookup src dst msg))"
  then have mid: "task_message_id t = generate_message_id rnd"
    by (rule task_of_handle_submit_sm)
  show "re_match dlr_regex
          (build_dlr_text (task_message_id t) ''DELIVRD''
             (get_error_code_from_hlr (task_hlr_result t)) None None now1 now2)"
    unfolding mid
    using dlr_text_matches [OF generate_message_id_not_empty generate_message_id_not_space assms]
    by (rule conjunct1)
  show "get_error_code_from_hlr (task_hlr_result t) = ''000''"
    by (rule get_error_code_000)
qed

theorem C7_witness:
  "re_match dlr_regex
     (build_dlr_text ''01234567-89ab-4def-8123-456789abcdef'' ''DELIVRD''
        (get_error_code_from_hlr [''error'' \<mapsto> JInt 1, ''status'' \<mapsto> JInt 1,
                                  ''classification'' \<mapsto> JStr ''invalid'']) None None
        \<lparr>year = 2025, month = 10, day = 9, hour = 14, minute = 30\<rparr>
        \<lparr>year = 2025, month = 10, day = 9, hour = 14, minute = 31\<rparr>)
   \<and> get_error_code_from_hlr [''error'' \<mapsto> JInt 1, ''status'' \<mapsto> JInt 1,
                                ''classification'' \<mapsto> JStr ''invalid''] = ''000''"
proof -
  let ?r = "[''error'' \<mapsto> JInt 1, ''status'' \<mapsto> JInt 1,
             ''classification'' \<mapsto> JStr ''invalid'']"
  let ?mid = "''01234567-89ab-4def-8123-456789abcdef''"
  let ?t = "\<lparr>task_message_id = ?mid, task_destination_addr = ''40722570240999'',
             task_source_addr = ''1234'', task_hlr_result = ?r\<rparr>"
  let ?d1 = "\<lparr>year = 2025, month = 10, day = 9, hour = 14, minute = 30\<rparr>"
  let ?d2 = "\<lparr>year = 2025, month = 10, day = 9, hour = 14, minute = 31\<rparr>"
  have h1: "valid_datetime ?d1"
    by (simp add: valid_datetime_def)
  have h2: "valid_datetime ?d2"
    by (simp add: valid_datetime_def)
  have created: "snd (handle_submit_sm ''reject'' 0x0123456789abcdef0123456789abcdef
                   (\<lambda>_. HLR_Result ?r) ''1234'' ''40722570240999'' []) = [?t]"
    by (simp add: handle_submit_sm_def dict_get_def Let_def ESME_ROK_def
          generate_message_id_example)
  have "\<forall>t\<in>set [?t].
          re_match dlr_regex
            (build_dlr_text (task_message_id t) ''DELIVRD''
               (get_error_code_from_hlr (task_hlr_result t)) None None ?d1 ?d2)
          \<and> get_error_code_from_hlr (task_hlr_result t) = ''000''"
    using C7_dlr_text_matches [OF h1 h2, of "0x0123456789abcdef0123456789abcdef" "?r" "''reject''"
            "\<lambda>_. HLR_Result ?r" "''1234''" "''40722570240999''" "[]"]
    unfolding created by (rule conjunct2)
  then have "re_match dlr_regex
               (build_dlr_text (task_message_id ?t) ''DELIVRD''
                  (get_error_code_from_hlr (task_hlr_result ?t)) None None ?d1 ?d2)
             \<and> get_error_code_from_hlr (task_hlr_result ?t) = ''000''"
    by (rule bspec) simp
  then show ?thesis
    unfolding dlr_task.select_convs .
qed

subsection \<open>The session\<close>

text \<open>
  C9. \<open>send_deliver_sm\<close> on a session whose authenticated flag is false writes nothing
  to the peer: the session, and with it the bytes written, is left as it was.
\<close>

theorem C9_no_deliver_sm_when_unauthenticated:
  assumes "\<not> authenticated s"
  shows "writer (send_deliver_sm s src dst msg) = writer s \<and> send_deliver_sm s src dst msg = s"
  using assms by (simp add: send_deliver_sm_def)

theorem C9_witness:
  "writer (send_deliver_sm
      \<lparr>authenticated = False, system_id = None, sequence_number = 1, writer = [], tasks = [],
       submits = 0\<rparr> ''40722570240999'' ''1234'' [0x69, 0x64]) = []"
  using C9_no_deliver_sm_when_unauthenticated
          [of "\<lparr>authenticated = False, system_id = None, sequence_number = 1, writer = [],
                tasks = [], submits = 0\<rparr>" "''40722570240999''" "''1234''" "[0x69, 0x64]"]
  by simp

subsection \<open>The message id\<close>

text \<open>
  C4. Whenever the handler answers ESME_ROK, the message id of the response is the
  36-character text of a version-4 UUID (not a 16-character token), exactly one DLR task
  is created, it carries that same id, and the DLR text built for the task starts with
  \<open>id:\<close> followed by that id and a space.
\<close>

theorem C4_message_id_is_36_characters:
  assumes "handle_submit_sm policy rnd lookup src dst msg = (Some res, ts)"
    and "command_status res = 0x00"
  shows "\<exists>mid t. message_id res = Some mid \<and> length mid = 36 \<and> ts = [t]
           \<and> task_message_id t = mid
           \<and> (\<forall>now1 now2. \<exists>rest. build_dlr_text (task_message_id t) ''DELIVRD''
                   (get_error_code_from_hlr (task_hlr_result t)) None None now1 now2
                 = ''id:'' @ mid @ '' '' @ rest)"
  using assms
  by (auto simp: handle_submit_sm_def Let_def ESME_ROK_def ESME_RINVDSTADR_def ESME_RSYSERR_def
        length_generate_message_id build_dlr_text_def split: hlr_outcome.splits if_splits)

theorem C4_witness:
  "handle_submit_sm ''reject'' 0x0123456789abcdef0123456789abcdef
       (\<lambda>_. HLR_Result [''error'' \<mapsto> JInt 1, ''status'' \<mapsto> JInt 1,
                          ''classification'' \<mapsto> JStr ''invalid''])
       ''1234'' ''40722570240999'' []
     = (Some \<lparr>command_status = 0x00,
               message_id = Some ''01234567-89ab-4def-8123-456789abcdef''\<rparr>,
        [\<lparr>task_message_id = ''01234567-89ab-4def-8123-456789abcdef'',
          task_destination_addr = ''40722570240999'', task_source_addr = ''1234'',
          task_hlr_result = [''error'' \<mapsto> JInt 1, ''status'' \<mapsto> JInt 1,
                             ''classification'' \<mapsto> JStr ''invalid'']\<rparr>])
   \<and> length ''01234567-89ab-4def-8123-456789abcdef'' = 36"
proof -
  let ?r = "[''error'' \<mapsto> JInt 1, ''status'' \<mapsto> JInt 1,
             ''classification'' \<mapsto> JStr ''invalid'']"
  let ?mid = "''01234567-89ab-4def-8123-456789abcdef''"
  let ?res = "\<lparr>command_status = 0x00, message_id = Some ?mid\<rparr>"
  let ?t = "\<lparr>task_message_id = ?mid, task_destination_addr = ''40722570240999'',
             task_source_addr = ''1234'', task_hlr_result = ?r\<rparr>"
  have h1: "handle_submit_sm ''reject'' 0x0123456789abcdef0123456789abcdef
              (\<lambda>_. HLR_Result ?r) ''1234'' ''40722570240999'' [] = (Some ?res, [?t])"
    by (simp add: handle_submit_sm_def dict_get_def Let_def ESME_ROK_def
          generate_message_id_example)
  have h2: "command_status ?res = 0x00"
    by simp
  from C4_message_id_is_36_characters [OF h1 h2]
  obtain mid where "message_id ?res = Some mid" and "length mid = 36"
    by blast
  then have "length ?mid = 36"
    by simp
  with h1 show ?thesis
    by (rule conjI)
qed

subsection \<open>Reading PDUs and the session loop\<close>

text \<open>
  C5, as amended. \<open>read_pdu\<close> reads exactly 16 header bytes and then exactly
  \<open>command_length - 16\<close> body bytes when that number is positive, none otherwise. It
  fails, with \<open>IncompleteReadError\<close>, exactly when the stream ends before those bytes;
  the length is not checked against any bound.
\<close>

theorem C5_read_pdu:
  "read_pdu stream =
     (if length stream < 16 then Inl IncompleteReadError
      else (let n = un_be32 (take 4 stream) - 16
            in if length stream < 16 + n then Inl IncompleteReadError
               else Inr (\<lparr>pdu_command_id = un_be32 (take 4 (drop 4 stream)),
                          pdu_command_status = un_be32 (take 4 (drop 8 stream)),
                          pdu_sequence = un_be32 (take 4 (drop 12 stream)),
                          pdu_body = take n (drop 16 stream)\<rparr>, drop (16 + n) stream)))"
proof (cases "length stream < 16")
  case True
  then show ?thesis by (simp add: read_pdu_def readexactly_def)
next
  case long: False
  show ?thesis
  proof (cases "16 < un_be32 (take 4 stream)")
    case True
    with long show ?thesis
      by (simp add: read_pdu_def readexactly_def unpack_take16 Let_def nat_diff_distrib)
         (auto simp: add.commute)
  next
    case False
    with long show ?thesis
      by (simp add: read_pdu_def readexactly_def unpack_take16 Let_def)
  qed
qed

text \<open>
  The claim as stated fails twice: a header with \<open>command_length = 8\<close> is accepted as a
  PDU with an empty body, and a PDU with \<open>command_length = 65553\<close>, above 64 KiB, is
  read in full.
\<close>

theorem C5_counterexample:
  "read_pdu [0, 0, 0, 8, 0, 0, 0, 0x15, 0, 0, 0, 0, 0, 0, 0, 1]
     = Inr (\<lparr>pdu_command_id = 0x15, pdu_command_status = 0, pdu_sequence = 1, pdu_body = []\<rparr>, [])
   \<and> read_pdu ([0, 1, 0, 17, 0, 0, 0, 0x15, 0, 0, 0, 0, 0, 0, 0, 1] @ replicate 65537 0)
     = Inr (\<lparr>pdu_command_id = 0x15, pdu_command_status = 0, pdu_sequence = 1,
             pdu_body = replicate 65537 0\<rparr>, [])"
proof -
  have small: "read_pdu [0, 0, 0, 8, 0, 0, 0, 0x15, 0, 0, 0, 0, 0, 0, 0, 1]
     = Inr (\<lparr>pdu_command_id = 0x15, pdu_command_status = 0, pdu_sequence = 1, pdu_body = []\<rparr>, [])"
    by (simp add: read_pdu_def readexactly_def unpack_header_def un_be32_def)
  have bytes: "[0, 1, 0, 17, 0, 0, 0, 0x15, 0, 0, 0, 0, 0, 0, 0, 1] @ replicate 65537 0
     = send_pdu_bytes 0x15 1 (replicate 65537 0) @ []"
    by (simp add: send_pdu_bytes_def be32_def)
  have big: "read_pdu (send_pdu_bytes 0x15 1 (replicate 65537 0) @ [])
     = Inr (\<lparr>pdu_command_id = 0x15, pdu_command_status = 0, pdu_sequence = 1,
             pdu_body = replicate 65537 0\<rparr>, [])"
    by (rule read_pdu_send_pdu_bytes) simp_all
  show ?thesis
    unfolding bytes using small big by (rule conjI)
qed




text \<open>
  C8, as amended. UNBIND is answered with UNBIND_RESP, status 0, and clears the
  authenticated flag; the reader does not exit: the loop goes on with the bytes that
  follow on the same session.
\<close>

theorem C8_unbind_answered_session_continues:
  assumes "16 + length body < 4294967296" and "sq < 4294967296"
  shows "run cfg e s (send_pdu_bytes SMPP_CMD_UNBIND sq body @ rest)
         = run cfg e
             (s\<lparr>writer := writer s @ be32 16 @ be32 0x80000006 @ be32 0 @ be32 sq,
                authenticated := False\<rparr>)
             rest"
  using assms(1) _ assms(2) process_pdu_unbind [OF assms(2)]
  by (rule run_send_pdu_bytes) (simp add: SMPP_CMD_UNBIND_def)

theorem C8_witness:
  "run \<lparr>smpp_system_id = ''testuser'', smpp_password = ''testpass'',
         hlr_timeout_policy = ''reject''\<rparr>
       \<lparr>hlr_lookup = (\<lambda>_ _. HLR_Error), urandom = (\<lambda>_. 0)\<rparr>
       \<lparr>authenticated = True, system_id = Some ''testuser'', sequence_number = 1, writer = [],
        tasks = [], submits = 0\<rparr>
       (send_pdu_bytes SMPP_CMD_UNBIND 7 [] @ [])
   = \<lparr>authenticated = False, system_id = Some ''testuser'', sequence_number = 1,
      writer = [0, 0, 0, 16, 0x80, 0, 0, 6, 0, 0, 0, 0, 0, 0, 0, 7], tasks = [],
      submits = 0\<rparr>"
proof -
  have h1: "16 + length ([] :: byte list) < 4294967296" by simp
  have h2: "(7::nat) < 4294967296" by simp
  show ?thesis
    unfolding C8_unbind_answered_session_continues [OF h1 h2] run_Nil
    by (simp add: be32_def)
qed

text \<open>
  The claim as stated fails: after UNBIND the session still processes PDUs. Here the
  same connection sends an ENQUIRE_LINK after the UNBIND and gets its response.
\<close>

theorem C8_counterexample:
  "writer
     (run default_settings hlr_down (fresh_session\<lparr>authenticated := True\<rparr>)
          ([0, 0, 0, 16, 0, 0, 0, 6, 0, 0, 0, 0, 0, 0, 0, 1]
           @ [0, 0, 0, 16, 0, 0, 0, 0x15, 0, 0, 0, 0, 0, 0, 0, 2]))
   = [0, 0, 0, 16, 0x80, 0, 0, 6, 0, 0, 0, 0, 0, 0, 0, 1]
     @ [0, 0, 0, 16, 0x80, 0, 0, 0x15, 0, 0, 0, 0, 0, 0, 0, 2]"
proof -
  have bytes: "[0, 0, 0, 16, 0, 0, 0, 6, 0, 0, 0, 0, 0, 0, 0, 1]
                 @ [0, 0, 0, 16, 0, 0, 0, 0x15, 0, 0, 0, 0, 0, 0, 0, 2]
     = send_pdu_bytes SMPP_CMD_UNBIND 1 [] @ send_pdu_bytes SMPP_CMD_ENQUIRE_LINK 2 []"
    by (simp add: send_pdu_bytes_def be32_def SMPP_CMD_ENQUIRE_LINK_def SMPP_CMD_UNBIND_def)
  have unbind: "process_pdu cfg e s \<lparr>pdu_command_id = SMPP_CMD_UNBIND, pdu_command_status = 0,
                  pdu_sequence = 1, pdu_body = []\<rparr>
                = (s\<lparr>writer := writer s @ be32 16 @ be32 0x80000006 @ be32 0 @ be32 1,
                     authenticated := False\<rparr>, None)" for cfg e s
    by (rule process_pdu_unbind) simp
  have step1: "run cfg e s (send_pdu_bytes SMPP_CMD_UNBIND 1 [] @ rest)
     = run cfg e (s\<lparr>writer := writer s @ be32 16 @ be32 0x80000006 @ be32 0 @ be32 1,
                     authenticated := False\<rparr>) rest" for cfg e s rest
    by (rule run_send_pdu_bytes [OF _ _ _ unbind]) (simp_all add: SMPP_CMD_UNBIND_def)
  have step2: "run cfg e s (send_pdu_bytes SMPP_CMD_ENQUIRE_LINK 2 [])
     = s\<lparr>writer := writer s @ be32 16 @ be32 0x80000015 @ be32 0 @ be32 2\<rparr>" for cfg e s
    by (rule run_enquire_link_last) simp
  show ?thesis
    unfolding bytes step1 step2
    by (simp add: fresh_session_def be32_def)
qed

end
